theory Spec2Isabelle
  imports Main "HOL-Library.Word"
begin

section \<open>Path and text functions of the Go library\<close>

text \<open>
  The repository calls Go's \<^verbatim>\<open>path/filepath\<close>, \<^verbatim>\<open>strings\<close> and \<^verbatim>\<open>fmt\<close>
  packages. They are library code, purely textual, and are written out here for the
  Unix separator \<^verbatim>\<open>/\<close>: \<^verbatim>\<open>IsAbs\<close> tests for a leading separator;
  \<^verbatim>\<open>Clean\<close> drops empty and \<^verbatim>\<open>.\<close> elements, cancels an inner \<^verbatim>\<open>..\<close>
  against the element before it, drops \<^verbatim>\<open>..\<close> at the start of a rooted path,
  keeps it at the start of a relative one, and turns the empty result into
  \<^verbatim>\<open>.\<close>; \<^verbatim>\<open>Join\<close> skips leading empty elements, joins the rest with the
  separator and cleans; \<^verbatim>\<open>Dir\<close> cleans everything up to the last separator;
  \<^verbatim>\<open>Base\<close> is the last element, trailing separators removed.
\<close>

definition Separator :: char where
  "Separator = CHR ''/''"

definition HasPrefix :: "string \<Rightarrow> string \<Rightarrow> bool" where
  "HasPrefix s pre = (take (length pre) s = pre)"

fun Contains :: "string \<Rightarrow> string \<Rightarrow> bool" where
  "Contains [] sub = (sub = [])"
| "Contains (c # cs) sub = (HasPrefix (c # cs) sub \<or> Contains cs sub)"

definition IsAbs :: "string \<Rightarrow> bool" where
  "IsAbs p = HasPrefix p [Separator]"

text \<open>\<^verbatim>\<open>strings.Split(s, "/")\<close>: the pieces between separators, empty ones included.\<close>

fun Split :: "string \<Rightarrow> string list" where
  "Split [] = [[]]"
| "Split (c # cs) =
     (if c = Separator then [] # Split cs
      else (case Split cs of [] \<Rightarrow> [[c]] | p # ps \<Rightarrow> (c # p) # ps))"

fun join_sep :: "string list \<Rightarrow> string" where
  "join_sep [] = []"
| "join_sep [e] = e"
| "join_sep (e # f # es) = e @ Separator # join_sep (f # es)"

text \<open>
  One element of \<^verbatim>\<open>Clean\<close>'s scan. The output is kept as a stack of elements, last
  written first. \<^verbatim>\<open>..\<close> removes the last real element when there is one; otherwise
  it is kept on a relative path and dropped on a rooted one.
\<close>

fun clean_step :: "bool \<Rightarrow> string list \<Rightarrow> string \<Rightarrow> string list" where
  "clean_step rooted out e =
     (if e = [] \<or> e = ''.'' then out
      else if e = ''..'' then
        (case out of
           [] \<Rightarrow> (if rooted then [] else [''..''])
         | t # r \<Rightarrow> (if t = ''..'' then ''..'' # out else r))
      else e # out)"

definition Clean :: "string \<Rightarrow> string" where
  "Clean p =
     (if p = [] then ''.''
      else
        (let rooted = IsAbs p;
             out = foldl (clean_step rooted) [] (Split p)
         in if rooted then Separator # join_sep (rev out)
            else if out = [] then ''.''
            else join_sep (rev out)))"

definition Join :: "string list \<Rightarrow> string" where
  "Join elem =
     (case dropWhile (\<lambda>e. e = []) elem of
        [] \<Rightarrow> []
      | es \<Rightarrow> Clean (join_sep es))"

definition trim_trailing_seps :: "string \<Rightarrow> string" where
  "trim_trailing_seps p = rev (dropWhile (\<lambda>c. c = Separator) (rev p))"

definition after_last_sep :: "string \<Rightarrow> string" where
  "after_last_sep p = rev (takeWhile (\<lambda>c. c \<noteq> Separator) (rev p))"

definition Base :: "string \<Rightarrow> string" where
  "Base p =
     (if p = [] then ''.''
      else
        (let q = after_last_sep (trim_trailing_seps p)
         in if q = [] then [Separator] else q))"

text \<open>\<^verbatim>\<open>fmt.Sprintf("%d", n)\<close> for a signed 64-bit \<^verbatim>\<open>n\<close>.\<close>

fun nat_digits :: "nat \<Rightarrow> string" where
  "nat_digits n =
     (if n < 10 then [''0123456789'' ! n]
      else nat_digits (n div 10) @ [''0123456789'' ! (n mod 10)])"

declare nat_digits.simps [simp del]

definition Itoa :: "64 word \<Rightarrow> string" where
  "Itoa n =
     (if sint n < 0 then CHR ''-'' # nat_digits (nat (- sint n))
      else nat_digits (nat (sint n)))"

definition upto_last_sep :: "string \<Rightarrow> string" where
  "upto_last_sep p = rev (dropWhile (\<lambda>c. c \<noteq> Separator) (rev p))"

definition Dir :: "string \<Rightarrow> string" where
  "Dir p = Clean (upto_last_sep p)"

section \<open>Security validator\<close>

text \<open>
  \<^verbatim>\<open>pkg/security/validator.go\<close>. The sizes are \<^verbatim>\<open>int64\<close>, read signed. The
  compression-ratio test divides two \<^verbatim>\<open>float64\<close> values; the comparison is taken
  as the field \<open>ratioExceeds\<close> (compressed size, uncompressed size) instead of being
  computed. The mutex is not modelled: every call here is sequential.
\<close>

type_synonym int64 = "64 word"

datatype sec_error =
    AbsolutePathNotAllowed string
  | PathTraversalDetected string
  | SymlinkTraversalDetected string string string
  | FileSizeExceeds int64 int64
  | TotalSizeExceeds int64 int64
  | CompressedSizeZero
  | CompressionRatioExceeds int64 int64

record Validator =
  maxFileSize :: int64
  maxTotalSize :: int64
  ratioExceeds :: "int64 \<Rightarrow> int64 \<Rightarrow> bool"
  currentTotalSize :: int64

definition ValidatePath :: "string \<Rightarrow> sec_error option" where
  "ValidatePath tarPath =
     (if IsAbs tarPath then Some (AbsolutePathNotAllowed tarPath)
      else if HasPrefix (Clean tarPath) ''..'' then Some (PathTraversalDetected tarPath)
      else None)"

fun depth_step :: "int \<Rightarrow> string \<Rightarrow> int" where
  "depth_step depth part =
     (if part = ''..'' then depth - 1
      else if part \<noteq> [] \<and> part \<noteq> ''.'' then depth + 1
      else depth)"

definition symlink_depth :: "string list \<Rightarrow> int" where
  "symlink_depth parts = foldl depth_step 0 parts"

definition ValidateSymlink :: "string \<Rightarrow> string \<Rightarrow> sec_error option" where
  "ValidateSymlink symlinkPath targetPath =
     (if IsAbs targetPath then None
      else
        (let symlinkDir = Dir symlinkPath;
             resolvedPath = Join [symlinkDir, targetPath];
             cleanResolved = Clean resolvedPath;
             parts = Split cleanResolved
         in if symlink_depth parts < 0
            then Some (SymlinkTraversalDetected symlinkPath targetPath cleanResolved)
            else None))"

definition ValidateFileSize :: "Validator \<Rightarrow> int64 \<Rightarrow> sec_error option" where
  "ValidateFileSize v sz =
     (if maxFileSize v <s sz then Some (FileSizeExceeds sz (maxFileSize v)) else None)"

definition AddExtractedSize :: "Validator \<Rightarrow> int64 \<Rightarrow> sec_error option \<times> Validator" where
  "AddExtractedSize v sz =
     (let v' = v\<lparr>currentTotalSize := currentTotalSize v + sz\<rparr>
      in if maxTotalSize v' <s currentTotalSize v'
         then (Some (TotalSizeExceeds (currentTotalSize v') (maxTotalSize v')), v')
         else (None, v'))"

definition ValidateCompressionRatio :: "Validator \<Rightarrow> int64 \<Rightarrow> int64 \<Rightarrow> sec_error option" where
  "ValidateCompressionRatio v compressedSize uncompressedSize =
     (if compressedSize = 0 then Some CompressedSizeZero
      else if ratioExceeds v compressedSize uncompressedSize
      then Some (CompressionRatioExceeds compressedSize uncompressedSize)
      else None)"

definition Reset :: "Validator \<Rightarrow> Validator" where
  "Reset v = v\<lparr>currentTotalSize := 0\<rparr>"

definition GetCurrentTotalSize :: "Validator \<Rightarrow> int64" where
  "GetCurrentTotalSize v = currentTotalSize v"

section \<open>Archive extractor\<close>

text \<open>
  \<^verbatim>\<open>pkg/devicemapper/extractor.go\<close>. An archive is the sequence of results of
  \<^verbatim>\<open>tarReader.Next()\<close>: a header with the bytes of its body, or a read error; the end
  of the list is \<^verbatim>\<open>io.EOF\<close>. The type flag is the byte of the tar format.

  The operating system decides whether a filesystem call fails. That decision is an input
  (\<open>OS\<close>), not computed from a modelled tree, so every theorem below holds for any
  behaviour of the filesystem. The extractor's effect is the list of filesystem calls it
  issued, in order, each with whether it succeeded.
\<close>

type_synonym bytes = "8 word list"

record Header =
  Name :: string
  Typeflag :: char
  Size :: int64
  Mode :: int64
  Linkname :: string

definition TypeReg :: char where "TypeReg = CHR ''0''"
definition TypeSymlink :: char where "TypeSymlink = CHR ''2''"
definition TypeDir :: char where "TypeDir = CHR ''5''"

datatype tar_item = Entry Header bytes | ReadError

record TarFile =
  tarOpenFails :: bool
  tarItems :: "tar_item list"
  tarStatSize :: "int64 option"

datatype fs_call =
    MkdirAll string
  | OpenFile string int64
  | Write string bytes
  | Close string
  | Symlink string string
  | Remove string

type_synonym fs_event = "fs_call \<times> bool"

datatype symlink_outcome = SymlinkOk | SymlinkExists | SymlinkFails

text \<open>
  \<open>copyFault os p = Some k\<close>: copying the body into \<open>p\<close> returns an error after
  \<open>k\<close> bytes reached the file.
\<close>

record OS =
  mkdirAllFails :: "string \<Rightarrow> bool"
  openFileFails :: "string \<Rightarrow> bool"
  copyFault :: "string \<Rightarrow> nat option"
  symlinkOutcome :: "string \<Rightarrow> symlink_outcome"

datatype extract_error =
    FailedToOpenTar
  | TarReadError
  | InvalidPathInTar sec_error
  | Security sec_error
  | FailedToCreateDirectory
  | FailedToCreateParentDir
  | FailedToCreateFile
  | FailedToWriteFile
  | InvalidSymlinkTarget sec_error
  | FailedToCreateSymlink
  | FailedToStatTar

type_synonym extract_result = "extract_error option \<times> Validator \<times> fs_event list"

definition extract_reg :: "OS \<Rightarrow> Validator \<Rightarrow> Header \<Rightarrow> bytes \<Rightarrow> string \<Rightarrow> extract_result" where
  "extract_reg os v header body target =
     (case ValidateFileSize v (Size header) of
        Some e \<Rightarrow> (Some (Security e), v, [])
      | None \<Rightarrow>
          (case AddExtractedSize v (Size header) of
             (Some e, v') \<Rightarrow> (Some (Security e), v', [])
           | (None, v') \<Rightarrow>
               if mkdirAllFails os (Dir target)
               then (Some FailedToCreateParentDir, v', [(MkdirAll (Dir target), False)])
               else if openFileFails os target
               then (Some FailedToCreateFile, v',
                     [(MkdirAll (Dir target), True), (OpenFile target (Mode header), False)])
               else
                 (case copyFault os target of
                    Some k \<Rightarrow>
                      (Some FailedToWriteFile, v',
                       [(MkdirAll (Dir target), True), (OpenFile target (Mode header), True),
                        (Write target (take k body), False), (Close target, True)])
                  | None \<Rightarrow>
                      (None, v',
                       [(MkdirAll (Dir target), True), (OpenFile target (Mode header), True),
                        (Write target body, True), (Close target, True)]))))"

definition extract_symlink :: "OS \<Rightarrow> Validator \<Rightarrow> Header \<Rightarrow> string \<Rightarrow> extract_result" where
  "extract_symlink os v header target =
     (case ValidateSymlink (Name header) (Linkname header) of
        Some e \<Rightarrow> (Some (InvalidSymlinkTarget e), v, [])
      | None \<Rightarrow>
          (case symlinkOutcome os target of
             SymlinkOk \<Rightarrow> (None, v, [(Symlink (Linkname header) target, True)])
           | SymlinkExists \<Rightarrow> (None, v, [(Symlink (Linkname header) target, False)])
           | SymlinkFails \<Rightarrow>
               (Some FailedToCreateSymlink, v, [(Symlink (Linkname header) target, False)])))"

text \<open>One iteration of the loop: the path check, then the switch on the type flag.\<close>

definition extract_entry :: "OS \<Rightarrow> string \<Rightarrow> Validator \<Rightarrow> Header \<Rightarrow> bytes \<Rightarrow> extract_result" where
  "extract_entry os destDir v header body =
     (case ValidatePath (Name header) of
        Some e \<Rightarrow> (Some (InvalidPathInTar e), v, [])
      | None \<Rightarrow>
          (let target = Join [destDir, Name header]
           in if Typeflag header = TypeDir then
                (if mkdirAllFails os target
                 then (Some FailedToCreateDirectory, v, [(MkdirAll target, False)])
                 else (None, v, [(MkdirAll target, True)]))
              else if Typeflag header = TypeReg then extract_reg os v header body target
              else if Typeflag header = TypeSymlink then extract_symlink os v header target
              else (None, v, [])))"

fun extract_loop :: "OS \<Rightarrow> string \<Rightarrow> Validator \<Rightarrow> tar_item list \<Rightarrow> extract_result" where
  "extract_loop os destDir v [] = (None, v, [])"
| "extract_loop os destDir v (ReadError # rest) = (Some TarReadError, v, [])"
| "extract_loop os destDir v (Entry header body # rest) =
     (case extract_entry os destDir v header body of
        (Some e, v', evs) \<Rightarrow> (Some e, v', evs)
      | (None, v', evs) \<Rightarrow>
          (case extract_loop os destDir v' rest of
             (r, v'', evs') \<Rightarrow> (r, v'', evs @ evs')))"

definition ExtractTarball :: "OS \<Rightarrow> TarFile \<Rightarrow> string \<Rightarrow> Validator \<Rightarrow> extract_result" where
  "ExtractTarball os tar destDir validator =
     (let v0 = Reset validator
      in if tarOpenFails tar then (Some FailedToOpenTar, v0, [])
         else
           (case extract_loop os destDir v0 (tarItems tar) of
              (Some e, v, evs) \<Rightarrow> (Some e, v, evs)
            | (None, v, evs) \<Rightarrow>
                (case tarStatSize tar of
                   None \<Rightarrow> (Some FailedToStatTar, v, evs)
                 | Some sz \<Rightarrow>
                     (case ValidateCompressionRatio v sz (GetCurrentTotalSize v) of
                        Some e \<Rightarrow> (Some (Security e), v, evs)
                      | None \<Rightarrow> (None, v, evs)))))"

text \<open>
  The regular files a list of filesystem events leaves in a destination that started
  empty, as an association list from path to contents: a successful open with
  \<^verbatim>\<open>O_CREATE|O_TRUNC\<close> makes the file empty, a write appends the bytes that
  reached it, a successful remove deletes it.
\<close>

fun files_after :: "(string \<times> bytes) list \<Rightarrow> fs_event list \<Rightarrow> (string \<times> bytes) list" where
  "files_after fs [] = fs"
| "files_after fs ((OpenFile p m, ok) # evs) =
     files_after (if ok then (p, []) # filter (\<lambda>e. fst e \<noteq> p) fs else fs) evs"
| "files_after fs ((Write p bs, ok) # evs) =
     files_after (map (\<lambda>e. if fst e = p then (p, snd e @ bs) else e) fs) evs"
| "files_after fs ((Remove p, ok) # evs) =
     files_after (if ok then filter (\<lambda>e. fst e \<noteq> p) fs else fs) evs"
| "files_after fs (ev # evs) = files_after fs evs"

section \<open>Image registry\<close>

text \<open>
  \<^verbatim>\<open>pkg/db\<close>: the schema and the repository. Go's \<^verbatim>\<open>int\<close> is taken as 64 bits
  wide, as SQLite's \<^verbatim>\<open>INTEGER\<close> is. The nullable columns are read back through
  \<^verbatim>\<open>sql.NullString\<close> and \<^verbatim>\<open>sql.NullInt64\<close>, which turn \<^verbatim>\<open>NULL\<close> into the
  empty string and zero, and every write stores Go values, so a row is an \<open>Image\<close>.
  The two timestamp columns are left out.

  Errors are values. Where the code stores or forwards the text of an error
  (\<^verbatim>\<open>err.Error()\<close>, \<^verbatim>\<open>fmt.Sprintf("...: %v", err)\<close>), the model keeps the error
  value and the constant prefix (\<open>message\<close>). Errors of the device manager are kept as
  their text, because \<^verbatim>\<open>handleComplete\<close> searches it.
\<close>

datatype db_error =
    DbIO
  | DatabaseFull
  | UniqueConstraintFailed
  | CheckConstraintFailed
  | ImageNotFound int64

datatype err =
    MaxRetriesExceeded int64
  | ResponseNotInitialized
  | ImageNotFoundInDatabase
  | DbError db_error
  | SecurityError sec_error
  | ExtractError extract_error
  | OsError
  | S3Error string
  | DmError string
  | CopyError
  | NilImage
  | Wrap err string

datatype message = NoMessage | ErrorText err | Sprintf string err

definition StatusPending :: string where "StatusPending = ''pending''"
definition StatusDownloading :: string where "StatusDownloading = ''downloading''"
definition StatusReady :: string where "StatusReady = ''ready''"
definition StatusFailed :: string where "StatusFailed = ''failed''"

record Image =
  ID :: int64
  S3Key :: string
  SHA256 :: string
  Status :: string
  DevicePath :: string
  BaseDeviceID :: int64
  SnapshotID :: int64
  ErrorMessage :: message

text \<open>
  The database: the rows of \<^verbatim>\<open>images\<close> in insertion order, the counter behind
  \<^verbatim>\<open>AUTOINCREMENT\<close>, and the value of the single row of \<^verbatim>\<open>device_sequence\<close>.
\<close>

record Repository =
  images :: "Image list"
  lastInsertId :: int64
  nextDeviceId :: int64

text \<open>The database a new file holds after the schema has run: seeded with the row (1, 1).\<close>

definition NewRepository :: Repository where
  "NewRepository = \<lparr>images = [], lastInsertId = 0, nextDeviceId = 1\<rparr>"

text \<open>
  The \<^verbatim>\<open>CHECK\<close> constraint of the \<^verbatim>\<open>status\<close> column. SQLite tests it on
  every row an \<^verbatim>\<open>INSERT\<close> or \<^verbatim>\<open>UPDATE\<close> writes, and the statement fails when
  it does not hold. An \<^verbatim>\<open>AUTOINCREMENT\<close> key is one more than the largest ever
  given, and the insertion fails once that is the largest 64-bit value.
\<close>

definition status_check :: "string \<Rightarrow> bool" where
  "status_check s = (s \<in> set [''pending'', ''downloading'', ''ready'', ''failed''])"

text \<open>
  Each statement sent to the database may fail for reasons outside the model (I/O). Which
  ones do is an input: \<open>io stmt\<close> holds when the statement fails that way.
\<close>

datatype db_stmt =
    InsertImage
  | LastInsertId
  | SelectImage
  | UpdateImage
  | RowsAffected
  | UpdateImageStatus
  | BeginTx
  | SelectSequence
  | UpdateSequence
  | CommitTx

type_synonym db_io = "db_stmt \<Rightarrow> bool"

definition has_id :: "int64 \<Rightarrow> Image \<Rightarrow> bool" where
  "has_id i row = (ID row = i)"

definition has_key :: "string \<Rightarrow> Image \<Rightarrow> bool" where
  "has_key k row = (S3Key row = k)"

definition Create :: "db_io \<Rightarrow> Repository \<Rightarrow> Image \<Rightarrow> err option \<times> Repository \<times> Image" where
  "Create io r img =
     (if io InsertImage then (Some (Wrap (DbError DbIO) ''failed to insert image''), r, img)
      else if list_ex (has_key (S3Key img)) (images r)
      then (Some (Wrap (DbError UniqueConstraintFailed) ''failed to insert image''), r, img)
      else if \<not> status_check (Status img)
      then (Some (Wrap (DbError CheckConstraintFailed) ''failed to insert image''), r, img)
      else if lastInsertId r = 9223372036854775807
      then (Some (Wrap (DbError DatabaseFull) ''failed to insert image''), r, img)
      else
        (let newId = lastInsertId r + 1;
             r' = r\<lparr>images := images r @ [img\<lparr>ID := newId\<rparr>], lastInsertId := newId\<rparr>
         in if io LastInsertId
            then (Some (Wrap (DbError DbIO) ''failed to get last insert id''), r', img)
            else (None, r', img\<lparr>ID := newId\<rparr>)))"

definition GetByS3Key :: "db_io \<Rightarrow> Repository \<Rightarrow> string \<Rightarrow> err + Image option" where
  "GetByS3Key io r s3Key =
     (if io SelectImage then Inl (Wrap (DbError DbIO) ''failed to query image'')
      else Inr (find (has_key s3Key) (images r)))"

definition update_row :: "Image \<Rightarrow> Image \<Rightarrow> Image" where
  "update_row img row =
     (if ID row = ID img
      then row\<lparr>SHA256 := SHA256 img, Status := Status img, DevicePath := DevicePath img,
               BaseDeviceID := BaseDeviceID img, SnapshotID := SnapshotID img,
               ErrorMessage := ErrorMessage img\<rparr>
      else row)"

definition Update :: "db_io \<Rightarrow> Repository \<Rightarrow> Image \<Rightarrow> err option \<times> Repository" where
  "Update io r img =
     (if io UpdateImage then (Some (Wrap (DbError DbIO) ''failed to update image''), r)
      else if list_ex (has_id (ID img)) (images r) \<and> \<not> status_check (Status img)
      then (Some (Wrap (DbError CheckConstraintFailed) ''failed to update image''), r)
      else
        (let r' = r\<lparr>images := map (update_row img) (images r)\<rparr>
         in if io RowsAffected
            then (Some (Wrap (DbError DbIO) ''failed to get rows affected''), r')
            else if \<not> list_ex (has_id (ID img)) (images r)
            then (Some (DbError (ImageNotFound (ID img))), r')
            else (None, r')))"

definition update_status_row :: "int64 \<Rightarrow> string \<Rightarrow> message \<Rightarrow> Image \<Rightarrow> Image" where
  "update_status_row i status errorMessage row =
     (if ID row = i then row\<lparr>Status := status, ErrorMessage := errorMessage\<rparr> else row)"

definition UpdateStatus ::
    "db_io \<Rightarrow> Repository \<Rightarrow> int64 \<Rightarrow> string \<Rightarrow> message \<Rightarrow> err option \<times> Repository" where
  "UpdateStatus io r i status errorMessage =
     (if io UpdateImageStatus then (Some (Wrap (DbError DbIO) ''failed to update status''), r)
      else if list_ex (has_id i) (images r) \<and> \<not> status_check status
      then (Some (Wrap (DbError CheckConstraintFailed) ''failed to update status''), r)
      else (None, r\<lparr>images := map (update_status_row i status errorMessage) (images r)\<rparr>))"

text \<open>
  \<open>AllocateNextDeviceID\<close>: the read and the write-back run on the transaction's copy
  of the database; only a successful commit makes the copy the database. Every error
  return leaves through the deferred rollback, which drops the copy.
\<close>

definition AllocateNextDeviceID :: "db_io \<Rightarrow> Repository \<Rightarrow> (err + int64) \<times> Repository" where
  "AllocateNextDeviceID io r =
     (if io BeginTx then (Inl (Wrap (DbError DbIO) ''failed to begin transaction''), r)
      else
        (let tx = r
         in if io SelectSequence
            then (Inl (Wrap (DbError DbIO) ''failed to query device sequence''), r)
            else
              (let nextID = nextDeviceId tx
               in if io UpdateSequence
                  then (Inl (Wrap (DbError DbIO) ''failed to update device sequence''), r)
                  else
                    (let tx' = tx\<lparr>nextDeviceId := nextID + 1\<rparr>
                     in if io CommitTx
                        then (Inl (Wrap (DbError DbIO) ''failed to commit transaction''), r)
                        else (Inr nextID, tx')))))"

text \<open>
  A series of calls, one \<open>db_io\<close> per call: the results in order and the database
  after the last call.
\<close>

fun allocate_calls :: "db_io list \<Rightarrow> Repository \<Rightarrow> (err + int64) list \<times> Repository" where
  "allocate_calls [] r = ([], r)"
| "allocate_calls (io # ios) r =
     (case AllocateNextDeviceID io r of
        (res, r') \<Rightarrow> (case allocate_calls ios r' of (rs, r'') \<Rightarrow> (res # rs, r'')))"

fun allocated :: "(err + int64) list \<Rightarrow> int64 list" where
  "allocated [] = []"
| "allocated (Inr v # rs) = v # allocated rs"
| "allocated (Inl e # rs) = allocated rs"

section \<open>Thin-device manager\<close>

text \<open>
  \<^verbatim>\<open>pkg/devicemapper\<close>. \<^verbatim>\<open>NewManager\<close> returns the Linux manager on Linux and
  the stub elsewhere; the pipeline may also hold no manager (\<open>None\<close>, Go's
  \<^verbatim>\<open>nil\<close>). The commands the Linux manager runs act on the kernel; whether one
  fails, and with which text, is an input (\<open>Kernel\<close>: \<open>Some text\<close> when the command
  fails). The manager's in-process table of devices serves \<^verbatim>\<open>ListDevices\<close> only and
  is left out.
\<close>

record DeviceInfo =
  InfoDevicePath :: string
  InfoSnapshotID :: int64
  InfoSize :: int64

datatype dm_cmd =
    PoolDelete string string
  | PoolCreateThin string string
  | PoolCreateSnap string string string
  | DmsetupCreate string string string
  | MkfsExt4 string
  | MountCmd string string
  | UmountCmd string
  | DmsetupRemove string

type_synonym Kernel = "dm_cmd \<Rightarrow> string option"

text \<open>\<open>Stub goos\<close> is the stub built for the operating system \<open>goos\<close>; \<open>Linux pool\<close> the manager of the pool \<open>pool\<close>.\<close>

datatype manager = Stub string | Linux string

definition not_supported :: "string \<Rightarrow> string" where
  "not_supported goos = ''devicemapper not supported on '' @ goos"

definition wrap_text :: "string \<Rightarrow> string \<Rightarrow> string" where
  "wrap_text e context = context @ '': '' @ e"

definition DefaultDeviceSectors :: int64 where
  "DefaultDeviceSectors = 2097152"

definition CreateDevice :: "Kernel \<Rightarrow> manager \<Rightarrow> string \<Rightarrow> string + DeviceInfo" where
  "CreateDevice k m deviceID =
     (case m of
        Stub goos \<Rightarrow> Inl (not_supported goos)
      | Linux poolName \<Rightarrow>
          (let deviceName = ''flyio-'' @ deviceID;
               poolDevicePath = Join [''/dev/mapper'', poolName];
               ignored = k (PoolDelete poolDevicePath deviceID)
           in case k (PoolCreateThin poolDevicePath deviceID) of
                Some e \<Rightarrow> Inl (wrap_text e ''failed to create thin device metadata'')
              | None \<Rightarrow>
                  (case k (DmsetupCreate deviceName poolDevicePath deviceID) of
                     Some e \<Rightarrow> Inl (wrap_text e ''failed to activate device'')
                   | None \<Rightarrow>
                       (let devicePath = Join [''/dev/mapper'', deviceName]
                        in case k (MkfsExt4 devicePath) of
                             Some e \<Rightarrow> Inl (wrap_text e ''failed to format device'')
                           | None \<Rightarrow>
                               Inr \<lparr>InfoDevicePath = devicePath, InfoSnapshotID = 0,
                                    InfoSize = DefaultDeviceSectors * 512\<rparr>))))"

definition CreateSnapshot :: "Kernel \<Rightarrow> manager \<Rightarrow> string \<Rightarrow> int64 \<Rightarrow> string + DeviceInfo" where
  "CreateSnapshot k m baseDeviceID snapshotID =
     (case m of
        Stub goos \<Rightarrow> Inl (not_supported goos)
      | Linux poolName \<Rightarrow>
          (let snapshotIDStr = Itoa snapshotID;
               snapshotName = ''flyio-snapshot-'' @ Itoa snapshotID;
               poolDevicePath = Join [''/dev/mapper'', poolName];
               ignored = k (PoolDelete poolDevicePath snapshotIDStr)
           in case k (PoolCreateSnap poolDevicePath snapshotIDStr baseDeviceID) of
                Some e \<Rightarrow> Inl (wrap_text e ''failed to create snapshot metadata'')
              | None \<Rightarrow>
                  (case k (DmsetupCreate snapshotName poolDevicePath snapshotIDStr) of
                     Some e \<Rightarrow> Inl (wrap_text e ''failed to activate snapshot'')
                   | None \<Rightarrow>
                       Inr \<lparr>InfoDevicePath = Join [''/dev/mapper'', snapshotName],
                            InfoSnapshotID = snapshotID,
                            InfoSize = DefaultDeviceSectors * 512\<rparr>)))"

definition MountDevice :: "Kernel \<Rightarrow> manager \<Rightarrow> string \<Rightarrow> string \<Rightarrow> string option" where
  "MountDevice k m devicePath mountPath =
     (case m of
        Stub goos \<Rightarrow> Some (not_supported goos)
      | Linux poolName \<Rightarrow>
          (case k (MountCmd devicePath mountPath) of
             Some e \<Rightarrow> Some (wrap_text e ''failed to mount device'')
           | None \<Rightarrow> None))"

definition UnmountDevice :: "Kernel \<Rightarrow> manager \<Rightarrow> string \<Rightarrow> string option" where
  "UnmountDevice k m mountPath =
     (case m of
        Stub goos \<Rightarrow> Some (not_supported goos)
      | Linux poolName \<Rightarrow>
          (case k (UmountCmd mountPath) of
             Some e \<Rightarrow> Some (wrap_text e ''failed to unmount device'')
           | None \<Rightarrow> None))"

definition DeleteDevice :: "Kernel \<Rightarrow> manager \<Rightarrow> string \<Rightarrow> string option" where
  "DeleteDevice k m deviceID =
     (case m of
        Stub goos \<Rightarrow> Some (not_supported goos)
      | Linux poolName \<Rightarrow>
          (case k (DmsetupRemove (''flyio-'' @ deviceID)) of
             Some e \<Rightarrow> Some (wrap_text e ''failed to remove device'')
           | None \<Rightarrow> None))"

section \<open>Activation pipeline\<close>

text \<open>
  \<^verbatim>\<open>pkg/fsm\<close>: the five transition handlers. A handler returns a response and no
  error (\<open>Next\<close>: the engine advances to the next state), an ordinary error (\<open>Retry\<close>:
  the engine calls the handler again) or an error wrapped by \<^verbatim>\<open>fsm.Abort\<close>
  (\<open>Abort\<close>: the run ends in the failed state).

  The state the handlers change is the registry and the object store's record of the
  fetches made (\<open>World\<close>). Everything else they consult is an input (\<open>Env\<close>): the
  attempt number the engine reports, the failures of database statements, filesystem
  calls and kernel commands, the object store's reply, the SHA-256 function, the archive
  a local path holds, and the result of \<^verbatim>\<open>copyDir\<close>, which walks the real tree.
  The validator's accumulator is reset at the start of every extraction, so its value
  after a handler is not carried over. Calls whose result the code ignores and whose
  effect is on the kernel alone (the deletes and unmounts of the error paths) do not
  appear. A handler that returns an error returns no response.
\<close>

record ImageRequest =
  ReqS3Key :: string
  S3Bucket :: string

record ImageResponse =
  ImageID :: int64
  RespSHA256 :: string
  DownloadPath :: string
  DownloadSize :: int64
  ExtractedPath :: string
  RespDevicePath :: string
  RespSnapshotID :: int64
  RespStatus :: string
  RespErrorMessage :: message

definition empty_response :: ImageResponse where
  "empty_response =
     \<lparr>ImageID = 0, RespSHA256 = [], DownloadPath = [], DownloadSize = 0, ExtractedPath = [],
      RespDevicePath = [], RespSnapshotID = 0, RespStatus = [], RespErrorMessage = NoMessage\<rparr>"

record DownloadResult =
  LocalPath :: string
  ResultSHA256 :: string
  ResultSize :: int64

record Machine =
  validator :: Validator
  dmManager :: "manager option"
  workDir :: string
  maxRetries :: int64

record Env =
  retryCount :: "64 word"
  dbIO :: db_io
  hostOS :: OS
  kernel :: Kernel
  getObject :: "string \<Rightarrow> string + bytes"
  sha256hex :: "bytes \<Rightarrow> string"
  tarAt :: "string \<Rightarrow> TarFile"
  removeAllFails :: "string \<Rightarrow> bool"
  copyDirFails :: "string \<Rightarrow> string \<Rightarrow> bool"

record World =
  repo :: Repository
  fetches :: "string list"

datatype 'a outcome = Next 'a | Retry err | Abort err

text \<open>\<^verbatim>\<open>retryCount >= uint64(m.maxRetries)\<close>: both sides read unsigned.\<close>

definition retries_exhausted :: "Machine \<Rightarrow> Env \<Rightarrow> bool" where
  "retries_exhausted m env = (maxRetries m \<le> retryCount env)"

text \<open>\<^verbatim>\<open>pkg/storage\<close>: \<^verbatim>\<open>Client.Download\<close>. Every call is one fetch from the object store.\<close>

definition Download :: "Env \<Rightarrow> World \<Rightarrow> string \<Rightarrow> string \<Rightarrow> (err + DownloadResult) \<times> World" where
  "Download env w s3Key localPath =
     (let w' = w\<lparr>fetches := fetches w @ [s3Key]\<rparr>
      in case getObject env s3Key of
           Inl e \<Rightarrow> (Inl (Wrap (S3Error e) ''failed to get object from S3''), w')
         | Inr body \<Rightarrow>
             if openFileFails (hostOS env) localPath
             then (Inl (Wrap OsError ''failed to create local file''), w')
             else
               (case copyFault (hostOS env) localPath of
                  Some n \<Rightarrow> (Inl (Wrap OsError ''failed to download file''), w')
                | None \<Rightarrow>
                    (Inr \<lparr>LocalPath = localPath, ResultSHA256 = sha256hex env body,
                          ResultSize = of_nat (length body)\<rparr>, w')))"

definition handleCheckDB ::
    "Machine \<Rightarrow> Env \<Rightarrow> World \<Rightarrow> ImageRequest \<Rightarrow> ImageResponse option
      \<Rightarrow> ImageResponse outcome \<times> World" where
  "handleCheckDB m env w req msg =
     (if retries_exhausted m env then (Abort (MaxRetriesExceeded (maxRetries m)), w)
      else
        (case GetByS3Key (dbIO env) (repo w) (ReqS3Key req) of
           Inl e \<Rightarrow> (Abort (Wrap e ''database error''), w)
         | Inr found \<Rightarrow>
             (let resp = (case msg of None \<Rightarrow> empty_response | Some r \<Rightarrow> r)
              in case found of
                   Some img \<Rightarrow>
                     (let resp' = resp\<lparr>ImageID := ID img, RespSHA256 := SHA256 img,
                                       RespStatus := Status img\<rparr>
                      in if Status img = StatusReady then (Next resp', w) else (Next resp', w))
                 | None \<Rightarrow>
                     (let img = \<lparr>ID = 0, S3Key = ReqS3Key req, SHA256 = [],
                                 Status = StatusPending, DevicePath = [], BaseDeviceID = 0,
                                 SnapshotID = 0, ErrorMessage = NoMessage\<rparr>
                      in case Create (dbIO env) (repo w) img of
                           (Some e, r', img') \<Rightarrow>
                             (Retry (Wrap e ''failed to create image record''), w\<lparr>repo := r'\<rparr>)
                         | (None, r', img') \<Rightarrow>
                             (Next (resp\<lparr>ImageID := ID img'\<rparr>), w\<lparr>repo := r'\<rparr>)))))"

definition handleDownload ::
    "Machine \<Rightarrow> Env \<Rightarrow> World \<Rightarrow> ImageRequest \<Rightarrow> ImageResponse option
      \<Rightarrow> ImageResponse outcome \<times> World" where
  "handleDownload m env w req msg =
     (if retries_exhausted m env then (Abort (MaxRetriesExceeded (maxRetries m)), w)
      else
        (case msg of
           None \<Rightarrow> (Abort ResponseNotInitialized, w)
         | Some resp \<Rightarrow>
             (case UpdateStatus (dbIO env) (repo w) (ImageID resp) StatusDownloading NoMessage of
                (Some e, r1) \<Rightarrow> (Retry (Wrap e ''failed to update status''), w\<lparr>repo := r1\<rparr>)
              | (None, r1) \<Rightarrow>
                  (let w1 = w\<lparr>repo := r1\<rparr>;
                       downloadDir = Join [workDir m, ''downloads'']
                   in if mkdirAllFails (hostOS env) downloadDir
                      then (Retry (Wrap OsError ''failed to create download dir''), w1)
                      else
                        (let localPath = Join [downloadDir, Base (ReqS3Key req)]
                         in case Download env w1 (ReqS3Key req) localPath of
                              (Inl e, w2) \<Rightarrow> (Retry (Wrap e ''failed to download from S3''), w2)
                            | (Inr result, w2) \<Rightarrow>
                                (let resp' = resp\<lparr>RespSHA256 := ResultSHA256 result,
                                                  DownloadPath := LocalPath result,
                                                  DownloadSize := ResultSize result\<rparr>
                                 in case GetByS3Key (dbIO env) (repo w2) (ReqS3Key req) of
                                      Inr (Some img) \<Rightarrow>
                                        (case Update (dbIO env) (repo w2)
                                                (img\<lparr>SHA256 := ResultSHA256 result\<rparr>) of
                                           (Some e, r3) \<Rightarrow>
                                             (Retry (Wrap e ''failed to update image''),
                                              w2\<lparr>repo := r3\<rparr>)
                                         | (None, r3) \<Rightarrow> (Next resp', w2\<lparr>repo := r3\<rparr>))
                                    | _ \<Rightarrow> (Next resp', w2)))))))"

definition handleValidate ::
    "Machine \<Rightarrow> Env \<Rightarrow> World \<Rightarrow> ImageRequest \<Rightarrow> ImageResponse option
      \<Rightarrow> ImageResponse outcome \<times> World" where
  "handleValidate m env w req msg =
     (if retries_exhausted m env then (Abort (MaxRetriesExceeded (maxRetries m)), w)
      else
        (case msg of
           None \<Rightarrow> (Abort ResponseNotInitialized, w)
         | Some resp \<Rightarrow>
             (case ValidateFileSize (validator m) (DownloadSize resp) of
                Some e \<Rightarrow>
                  (Abort (SecurityError e),
                   w\<lparr>repo := snd (UpdateStatus (dbIO env) (repo w) (ImageID resp) StatusFailed
                                     (ErrorText (SecurityError e)))\<rparr>)
              | None \<Rightarrow>
                  (let extractDir = Join [workDir m, ''extracted'', Base (ReqS3Key req)]
                   in if removeAllFails env extractDir
                      then (Retry (Wrap OsError ''failed to clean extract dir''), w)
                      else if mkdirAllFails (hostOS env) extractDir
                      then (Retry (Wrap OsError ''failed to create extract dir''), w)
                      else
                        (case fst (ExtractTarball (hostOS env) (tarAt env (DownloadPath resp))
                                     extractDir (validator m)) of
                           Some e \<Rightarrow>
                             (Abort (Wrap (ExtractError e) ''tar extraction failed''),
                              w\<lparr>repo := snd (UpdateStatus (dbIO env) (repo w) (ImageID resp)
                                                StatusFailed (ErrorText (ExtractError e)))\<rparr>)
                         | None \<Rightarrow> (Next (resp\<lparr>ExtractedPath := extractDir\<rparr>), w))))))"

text \<open>
  \<^verbatim>\<open>handleCreateDevice\<close>, in three parts: the end of the handler, which writes the
  device into the response and the row (\<open>record_device\<close>); the middle, from the mount
  directory to the unmount (\<open>fill_device\<close>); and the handler itself.
\<close>

definition record_device ::
    "Env \<Rightarrow> World \<Rightarrow> ImageRequest \<Rightarrow> ImageResponse \<Rightarrow> int64 \<Rightarrow> DeviceInfo \<Rightarrow> string
      \<Rightarrow> ImageResponse outcome \<times> World" where
  "record_device env w req resp baseDeviceID deviceInfo mountPath =
     (let resp' = resp\<lparr>RespDevicePath := InfoDevicePath deviceInfo\<rparr>
      in case GetByS3Key (dbIO env) (repo w) (ReqS3Key req) of
           Inr (Some img) \<Rightarrow>
             (case Update (dbIO env) (repo w)
                     (img\<lparr>BaseDeviceID := baseDeviceID,
                           DevicePath := InfoDevicePath deviceInfo\<rparr>) of
                (Some e, r) \<Rightarrow> (Retry (Wrap e ''failed to update image''), w\<lparr>repo := r\<rparr>)
              | (None, r) \<Rightarrow> (Next (resp'\<lparr>ExtractedPath := mountPath\<rparr>), w\<lparr>repo := r\<rparr>))
         | _ \<Rightarrow> (Next (resp'\<lparr>ExtractedPath := mountPath\<rparr>), w))"

definition fill_device ::
    "Machine \<Rightarrow> Env \<Rightarrow> World \<Rightarrow> ImageRequest \<Rightarrow> ImageResponse \<Rightarrow> manager \<Rightarrow> int64
      \<Rightarrow> DeviceInfo \<Rightarrow> ImageResponse outcome \<times> World" where
  "fill_device m env w req resp dm baseDeviceID deviceInfo =
     (let mountPath = Join [workDir m, ''mounts'', Itoa baseDeviceID]
      in if mkdirAllFails (hostOS env) mountPath
         then (Retry (Wrap OsError ''failed to create mount dir''), w)
         else
           (case MountDevice (kernel env) dm (InfoDevicePath deviceInfo) mountPath of
              Some e \<Rightarrow> (Retry (Wrap (DmError e) ''failed to mount device''), w)
            | None \<Rightarrow>
                if copyDirFails env (ExtractedPath resp) mountPath
                then
                  (Abort (Wrap CopyError ''copy to device failed''),
                   w\<lparr>repo := snd (UpdateStatus (dbIO env) (repo w) (ImageID resp) StatusFailed
                                     (ErrorText CopyError))\<rparr>)
                else
                  (case UnmountDevice (kernel env) dm mountPath of
                     Some e \<Rightarrow> (Retry (Wrap (DmError e) ''failed to unmount device''), w)
                   | None \<Rightarrow> record_device env w req resp baseDeviceID deviceInfo mountPath)))"

definition handleCreateDevice ::
    "Machine \<Rightarrow> Env \<Rightarrow> World \<Rightarrow> ImageRequest \<Rightarrow> ImageResponse option
      \<Rightarrow> ImageResponse outcome \<times> World" where
  "handleCreateDevice m env w req msg =
     (if retries_exhausted m env then (Abort (MaxRetriesExceeded (maxRetries m)), w)
      else
        (case msg of
           None \<Rightarrow> (Abort ResponseNotInitialized, w)
         | Some resp \<Rightarrow>
             (case dmManager m of
                None \<Rightarrow> (Next resp, w)
              | Some dm \<Rightarrow>
                  (case AllocateNextDeviceID (dbIO env) (repo w) of
                     (Inl e, r1) \<Rightarrow>
                       (Retry (Wrap e ''failed to allocate base device ID''), w\<lparr>repo := r1\<rparr>)
                   | (Inr baseDeviceID, r1) \<Rightarrow>
                       (case CreateDevice (kernel env) dm (Itoa baseDeviceID) of
                          Inl e \<Rightarrow>
                            (Next (resp\<lparr>RespErrorMessage :=
                                           Sprintf ''devicemapper warning: '' (DmError e)\<rparr>),
                             w\<lparr>repo := r1\<rparr>)
                        | Inr deviceInfo \<Rightarrow>
                            fill_device m env (w\<lparr>repo := r1\<rparr>) req resp dm baseDeviceID
                              deviceInfo)))))"

text \<open>
  In \<^verbatim>\<open>handleComplete\<close> the row is marked ready through the image id of the response,
  not of the row read.
\<close>

definition mark_ready ::
    "Env \<Rightarrow> World \<Rightarrow> ImageResponse \<Rightarrow> ImageResponse outcome \<times> World" where
  "mark_ready env w resp =
     (case UpdateStatus (dbIO env) (repo w) (ImageID resp) StatusReady NoMessage of
        (Some e, r) \<Rightarrow> (Retry (Wrap e ''failed to update status''), w\<lparr>repo := r\<rparr>)
      | (None, r) \<Rightarrow> (Next (resp\<lparr>RespStatus := StatusReady\<rparr>), w\<lparr>repo := r\<rparr>))"

text \<open>
  The snapshot branch of \<^verbatim>\<open>handleComplete\<close>, entered with the snapshot id chosen
  (\<open>make_snapshot\<close>), and the handler.
\<close>

definition make_snapshot ::
    "Env \<Rightarrow> World \<Rightarrow> ImageResponse \<Rightarrow> manager \<Rightarrow> Image \<Rightarrow> int64
      \<Rightarrow> ImageResponse outcome \<times> World" where
  "make_snapshot env w resp dm img snapshotID =
     (case CreateSnapshot (kernel env) dm (Itoa (BaseDeviceID img)) snapshotID of
        Inl e \<Rightarrow>
          if Contains e ''not supported''
          then mark_ready env w
                 (resp\<lparr>RespErrorMessage := Sprintf ''snapshot unavailable: '' (DmError e)\<rparr>)
          else
            (Abort (Wrap (DmError e) ''snapshot creation failed (required by challenge)''),
             w\<lparr>repo := snd (UpdateStatus (dbIO env) (repo w) (ID img) StatusFailed
                               (Sprintf ''snapshot creation failed: '' (DmError e)))\<rparr>)
      | Inr snapshotInfo \<Rightarrow>
          (let resp' = resp\<lparr>RespSnapshotID := InfoSnapshotID snapshotInfo,
                             RespDevicePath := DevicePath img\<rparr>
           in case Update (dbIO env) (repo w)
                     (img\<lparr>SnapshotID := InfoSnapshotID snapshotInfo\<rparr>) of
                (Some e, r) \<Rightarrow> (Retry (Wrap e ''failed to update image''), w\<lparr>repo := r\<rparr>)
              | (None, r) \<Rightarrow> mark_ready env (w\<lparr>repo := r\<rparr>) resp'))"

definition handleComplete ::
    "Machine \<Rightarrow> Env \<Rightarrow> World \<Rightarrow> ImageRequest \<Rightarrow> ImageResponse option
      \<Rightarrow> ImageResponse outcome \<times> World" where
  "handleComplete m env w req msg =
     (if retries_exhausted m env then (Abort (MaxRetriesExceeded (maxRetries m)), w)
      else
        (let resp = (case msg of None \<Rightarrow> empty_response\<lparr>RespStatus := ''complete''\<rparr>
                                | Some r \<Rightarrow> r)
         in case GetByS3Key (dbIO env) (repo w) (ReqS3Key req) of
              Inl e \<Rightarrow> (Abort (Wrap e ''failed to load image''), w)
            | Inr None \<Rightarrow> (Abort ImageNotFoundInDatabase, w)
            | Inr (Some img) \<Rightarrow>
                (case dmManager m of
                   None \<Rightarrow> mark_ready env w resp
                 | Some dm \<Rightarrow>
                     if DevicePath img = [] then mark_ready env w resp
                     else if SnapshotID img = 0 then
                       (case AllocateNextDeviceID (dbIO env) (repo w) of
                          (Inl e, r1) \<Rightarrow>
                            (Abort (Wrap e ''snapshot ID allocation failed''),
                             w\<lparr>repo := snd (UpdateStatus (dbIO env) r1 (ID img) StatusFailed
                                               (Sprintf ''snapshot ID allocation failed: '' e))\<rparr>)
                        | (Inr snapshotID, r1) \<Rightarrow>
                            make_snapshot env (w\<lparr>repo := r1\<rparr>) resp dm img snapshotID)
                     else make_snapshot env w resp dm img (SnapshotID img))))"

text \<open>
  The engine is an external library. Its chain is linear: a handler that returns a
  response is followed by the next handler of the chain, whatever the response holds.
  \<open>run_chain\<close> is one pass through the registered chain in which every handler is
  attempted once: the first error ends the pass.
\<close>

datatype run_result =
    Completed ImageResponse
  | Failed string err
  | Retrying string err

definition StateCheckDB :: string where "StateCheckDB = ''check_db''"
definition StateDownload :: string where "StateDownload = ''download''"
definition StateValidate :: string where "StateValidate = ''validate''"
definition StateCreateDevice :: string where "StateCreateDevice = ''create_device''"
definition StateComplete :: string where "StateComplete = ''complete''"

type_synonym handler =
  "Machine \<Rightarrow> Env \<Rightarrow> World \<Rightarrow> ImageRequest \<Rightarrow> ImageResponse option
     \<Rightarrow> ImageResponse outcome \<times> World"

fun run_states ::
    "(string \<times> handler) list \<Rightarrow> Machine \<Rightarrow> Env \<Rightarrow> World \<Rightarrow> ImageRequest \<Rightarrow> ImageResponse
      \<Rightarrow> run_result \<times> World" where
  "run_states [] m env w req resp = (Completed resp, w)"
| "run_states ((name, h) # rest) m env w req resp =
     (case h m env w req (Some resp) of
        (Next resp', w') \<Rightarrow> run_states rest m env w' req resp'
      | (Retry e, w') \<Rightarrow> (Retrying name e, w')
      | (Abort e, w') \<Rightarrow> (Failed name e, w'))"

definition registered_chain :: "(string \<times> handler) list" where
  "registered_chain =
     [(StateCheckDB, handleCheckDB), (StateDownload, handleDownload),
      (StateValidate, handleValidate), (StateCreateDevice, handleCreateDevice),
      (StateComplete, handleComplete)]"

definition run_chain :: "Machine \<Rightarrow> Env \<Rightarrow> World \<Rightarrow> ImageRequest \<Rightarrow> run_result \<times> World" where
  "run_chain m env w req = run_states registered_chain m env w req empty_response"

section \<open>Cleanup command\<close>

text \<open>
  \<^verbatim>\<open>cmd/flyio-machine/commands/cleanup.go\<close>. The image is passed by pointer and
  changed in place, so the changed image is returned beside the error and the database.
  The deletions of devices act on the kernel and their errors are only printed; they do
  not appear. \<open>NilImage\<close> stands for the nil dereference when the key has no row.
\<close>

record CleanupEnv =
  cleanupIO :: db_io
  statOk :: "string \<Rightarrow> bool"
  osRemoveAllFails :: "string \<Rightarrow> bool"
  osRemoveFails :: "string \<Rightarrow> bool"

definition cleanupImageResources ::
    "CleanupEnv \<Rightarrow> Repository \<Rightarrow> manager option \<Rightarrow> string \<Rightarrow> Image
      \<Rightarrow> err option \<times> Repository \<times> Image" where
  "cleanupImageResources env r dm wd img =
     (let img1 = (if dm \<noteq> None \<and> SnapshotID img \<noteq> 0 then img\<lparr>SnapshotID := 0\<rparr> else img);
          img2 = (if dm \<noteq> None \<and> 0 <s BaseDeviceID img1
                  then img1\<lparr>BaseDeviceID := 0, DevicePath := []\<rparr> else img1);
          extractedPath = Join [wd, ''extracted'', S3Key img2];
          downloadPath = Join [wd, ''downloads'', S3Key img2]
      in if statOk env extractedPath \<and> osRemoveAllFails env extractedPath
         then (Some (Wrap OsError ''failed to remove extracted files''), r, img2)
         else if statOk env downloadPath \<and> osRemoveFails env downloadPath
         then (Some (Wrap OsError ''failed to remove download''), r, img2)
         else
           (let img3 = img2\<lparr>Status := ''cleaned''\<rparr>
            in case Update (cleanupIO env) r img3 of
                 (Some e, r') \<Rightarrow> (Some (Wrap e ''failed to update database''), r', img3)
               | (None, r') \<Rightarrow> (None, r', img3)))"

definition cleanupSpecificImage ::
    "CleanupEnv \<Rightarrow> Repository \<Rightarrow> manager option \<Rightarrow> string \<Rightarrow> string
      \<Rightarrow> err option \<times> Repository" where
  "cleanupSpecificImage env r dm wd s3Key =
     (case GetByS3Key (cleanupIO env) r s3Key of
        Inl e \<Rightarrow> (Some (Wrap e ''image not found''), r)
      | Inr None \<Rightarrow> (Some NilImage, r)
      | Inr (Some img) \<Rightarrow>
          (case cleanupImageResources env r dm wd img of
             (Some e, r', img') \<Rightarrow> (Some (Wrap e ''cleanup failed''), r')
           | (None, r', img') \<Rightarrow> (None, r')))"

section \<open>Auxiliary definitions: a proof predicate and example environments\<close>

text \<open>The elements \<^verbatim>\<open>Clean\<close> keeps are non-empty and free of separators.\<close>

definition clean_elems :: "string list \<Rightarrow> bool" where
  "clean_elems out = (\<forall>e \<in> set out. e \<noteq> [] \<and> Separator \<notin> set e)"

text \<open>Concrete environments used in the examples.\<close>

definition os_ok :: OS where
  "os_ok = \<lparr>mkdirAllFails = (\<lambda>_. False), openFileFails = (\<lambda>_. False),
            copyFault = (\<lambda>_. None), symlinkOutcome = (\<lambda>_. SymlinkOk)\<rparr>"

definition os_disk_full :: OS where
  "os_disk_full = os_ok\<lparr>copyFault := (\<lambda>_. Some 2)\<rparr>"

definition validator_1k :: Validator where
  "validator_1k = \<lparr>maxFileSize = 1024, maxTotalSize = 4096,
                   ratioExceeds = (\<lambda>c u. False), currentTotalSize = 0\<rparr>"

definition hdr :: "string \<Rightarrow> char \<Rightarrow> string \<Rightarrow> Header" where
  "hdr n t l = \<lparr>Name = n, Typeflag = t, Size = 3, Mode = 420, Linkname = l\<rparr>"

definition tar_of :: "tar_item list \<Rightarrow> TarFile" where
  "tar_of items = \<lparr>tarOpenFails = False, tarItems = items, tarStatSize = Some 2048\<rparr>"

definition no_io :: db_io where
  "no_io = (\<lambda>_. False)"

definition kernel_ok :: Kernel where
  "kernel_ok = (\<lambda>_. None)"

text \<open>A kernel in which creating the thin device fails: \<^verbatim>\<open>dmsetup\<close> exits with status 1.\<close>

fun kernel_no_thin :: Kernel where
  "kernel_no_thin (PoolCreateThin pool dev) = Some ''exit status 1''"
| "kernel_no_thin c = None"

definition env_of :: "Kernel \<Rightarrow> Env" where
  "env_of k =
     \<lparr>retryCount = 0, dbIO = no_io, hostOS = os_ok, kernel = k,
      getObject = (\<lambda>_. Inr [1, 2, 3]), sha256hex = (\<lambda>_. ''abc123''),
      tarAt = (\<lambda>_. tar_of [Entry (hdr ''etc/motd'' TypeReg []) [1, 2, 3]]),
      removeAllFails = (\<lambda>_. False), copyDirFails = (\<lambda>_ _. False)\<rparr>"

definition machine_of :: "manager option \<Rightarrow> Machine" where
  "machine_of dm = \<lparr>validator = validator_1k, dmManager = dm, workDir = ''/work'', maxRetries = 3\<rparr>"

definition golang_request :: ImageRequest where
  "golang_request = \<lparr>ReqS3Key = ''images/golang/2.tar'', S3Bucket = ''bucket''\<rparr>"

definition new_world :: World where
  "new_world = \<lparr>repo = NewRepository, fetches = []\<rparr>"

definition cleanup_env_ok :: CleanupEnv where
  "cleanup_env_ok =
     \<lparr>cleanupIO = no_io, statOk = (\<lambda>_. True), osRemoveAllFails = (\<lambda>_. False),
      osRemoveFails = (\<lambda>_. False)\<rparr>"

definition linux_machine :: Machine where
  "linux_machine = machine_of (Some (Linux ''pool''))"

definition stub_machine :: Machine where
  "stub_machine = machine_of (Some (Stub ''darwin''))"

text \<open>The world after one activation of the key on Linux in which every call succeeds.\<close>

definition activated_world :: World where
  "activated_world = snd (run_chain linux_machine (env_of kernel_ok) new_world golang_request)"

text \<open>The device columns of the rows, and the response \<open>check_db\<close> hands to \<open>download\<close>.\<close>

definition device_columns :: "World \<Rightarrow> (string \<times> string \<times> int64 \<times> int64) list" where
  "device_columns w =
     map (\<lambda>i. (Status i, DevicePath i, BaseDeviceID i, SnapshotID i)) (images (repo w))"

definition checked_response :: "World \<Rightarrow> ImageResponse option" where
  "checked_response w =
     (case fst (handleCheckDB linux_machine (env_of kernel_ok) w golang_request
                  (Some empty_response)) of
        Next resp \<Rightarrow> Some resp
      | _ \<Rightarrow> None)"

section \<open>Properties of the path validator\<close>

text \<open>\<open>Clean\<close> on cases of the Go library's own table.\<close>

lemma Clean_examples:
  "Clean [] = ''.''"
  "Clean ''abc//def//ghi'' = ''abc/def/ghi''"
  "Clean ''abc/def/'' = ''abc/def''"
  "Clean ''abc/./def'' = ''abc/def''"
  "Clean ''abc/def/ghi/../jkl'' = ''abc/def/jkl''"
  "Clean ''abc/def/../../..'' = ''..''"
  "Clean ''/abc/def/../../..'' = ''/''"
  "Clean ''abc/def/../../../ghi/jkl/../../../mno'' = ''../../mno''"
  "Clean ''/../abc'' = ''/abc''"
  "Clean ''abc/./../def'' = ''def''"
  "Clean ''abc//./../def'' = ''def''"
  "Clean ''../../abc/../def'' = ''../../def''"
  "Dir ''/usr/bin/'' = ''/usr/bin''"
  "Dir ''x'' = ''.''"
  "Base ''/usr/bin/'' = ''bin''"
  "Join [''a'', [], ''../b''] = ''b''"
  by code_simp+

lemma Clean_rooted_head: "IsAbs p \<Longrightarrow> \<exists>r. Clean p = Separator # r"
  by (auto simp: Clean_def IsAbs_def HasPrefix_def Let_def)

lemma IsAbs_no_dotdot_prefix: "IsAbs p \<Longrightarrow> \<not> HasPrefix (Clean p) ''..''"
  using Clean_rooted_head [of p] by (auto simp: HasPrefix_def Separator_def)

lemma foldl_depth_step:
  "foldl depth_step d parts =
     d + int (length (filter (\<lambda>p. p \<noteq> [] \<and> p \<noteq> ''.'' \<and> p \<noteq> ''..'') parts))
       - int (length (filter (\<lambda>p. p = ''..'') parts))"
  by (induction parts arbitrary: d) auto

lemma Split_no_sep: "e \<in> set (Split p) \<Longrightarrow> Separator \<notin> set e"
  by (induction p arbitrary: e) (auto split: if_splits list.splits)

lemma Split_nonempty: "Split p \<noteq> []"
  by (induction p) (auto split: list.splits)

lemma clean_step_elems:
  "clean_elems out \<Longrightarrow> Separator \<notin> set e \<Longrightarrow> clean_elems (clean_step rooted out e)"
  by (auto simp: clean_elems_def Separator_def split: list.splits)

lemma foldl_clean_step_elems:
  "clean_elems out \<Longrightarrow> \<forall>e \<in> set es. Separator \<notin> set e \<Longrightarrow>
   clean_elems (foldl (clean_step rooted) out es)"
proof (induction es arbitrary: out)
  case Nil
  then show ?case by simp
next
  case (Cons e es)
  then show ?case using clean_step_elems [of out e rooted] by simp
qed

lemma join_sep_head:
  "es \<noteq> [] \<Longrightarrow> clean_elems es \<Longrightarrow> \<exists>c r. join_sep es = c # r \<and> c \<noteq> Separator"
proof (cases es)
  case Nil
  then show "es \<noteq> [] \<Longrightarrow> ?thesis" by simp
next
  case (Cons e rest)
  assume ce: "clean_elems es"
  from ce Cons obtain c r where e: "e = c # r" and c: "c \<noteq> Separator"
    by (cases e) (auto simp: clean_elems_def)
  show ?thesis
  proof (cases rest)
    case Nil
    with Cons e c show ?thesis by simp
  next
    case (Cons f fs)
    with \<open>es = e # rest\<close> e c show ?thesis by simp
  qed
qed

lemma IsAbs_Clean: "IsAbs (Clean p) = IsAbs p"
proof (cases "IsAbs p")
  case True
  then show ?thesis using Clean_rooted_head [of p] by (auto simp: IsAbs_def HasPrefix_def)
next
  case False
  have elems: "clean_elems (foldl (clean_step False) [] (Split p))"
    by (rule foldl_clean_step_elems) (auto simp: clean_elems_def Split_no_sep)
  show ?thesis
  proof (cases "p = [] \<or> foldl (clean_step False) [] (Split p) = []")
    case True
    with False show ?thesis
      by (auto simp: Clean_def IsAbs_def HasPrefix_def Separator_def Let_def)
  next
    case nonempty: False
    let ?out = "foldl (clean_step False) [] (Split p)"
    from elems have "clean_elems (rev ?out)" by (simp add: clean_elems_def)
    with nonempty obtain c r where "join_sep (rev ?out) = c # r" and "c \<noteq> Separator"
      using join_sep_head [of "rev ?out"] by auto
    with False nonempty show ?thesis
      by (simp add: Clean_def IsAbs_def HasPrefix_def Let_def)
  qed
qed

lemma ValidatePath_fails_iff:
  "(ValidatePath n \<noteq> None) = (IsAbs (Clean n) \<or> HasPrefix (Clean n) ''..'')"
  by (simp add: ValidatePath_def IsAbs_Clean)

text \<open>
  C9. \<open>ValidatePath\<close> rejects every entry name whose cleaned form begins with the
  two characters \<^verbatim>\<open>..\<close>, as a string prefix: the error is the path-traversal one.
  The single-element name \<^verbatim>\<open>..config\<close> is its own cleaned form, its first
  element is not \<^verbatim>\<open>..\<close>, joined to a destination it stays below it, and it is
  rejected all the same.
\<close>

theorem ValidatePath_dotdot_prefix:
  "(HasPrefix (Clean name) ''..'' \<longrightarrow> ValidatePath name = Some (PathTraversalDetected name))
   \<and> Clean ''..config'' = ''..config''
   \<and> hd (Split (Clean ''..config'')) \<noteq> ''..''
   \<and> Join [''/dest'', ''..config''] = ''/dest/..config''
   \<and> ValidatePath ''..config'' = Some (PathTraversalDetected ''..config'')"
proof -
  have general: "HasPrefix (Clean name) ''..'' \<longrightarrow> ValidatePath name = Some (PathTraversalDetected name)"
    using IsAbs_no_dotdot_prefix [of name] by (auto simp: ValidatePath_def)
  have c: "Clean ''..config'' = ''..config''" by code_simp
  have h: "hd (Split (Clean ''..config'')) \<noteq> ''..''" by code_simp
  have j: "Join [''/dest'', ''..config''] = ''/dest/..config''" by code_simp
  have v: "ValidatePath ''..config'' = Some (PathTraversalDetected ''..config'')" by code_simp
  from general c h j v show ?thesis by blast
qed

theorem ValidatePath_dotdot_prefix_witness:
  "HasPrefix (Clean ''../etc/passwd'') ''..''
   \<and> ValidatePath ''../etc/passwd'' = Some (PathTraversalDetected ''../etc/passwd'')"
proof -
  have h: "HasPrefix (Clean ''../etc/passwd'') ''..''" by code_simp
  with ValidatePath_dotdot_prefix [of "''../etc/passwd''"] show ?thesis by blast
qed

text \<open>
  C4, as amended. \<open>ValidateSymlink\<close> accepts every absolute target. For a relative
  target it joins the target to the directory of the symlink, cleans the result, and
  counts over its elements: the count is the number of elements other than the empty one,
  \<^verbatim>\<open>.\<close> and \<^verbatim>\<open>..\<close>, minus the number of \<^verbatim>\<open>..\<close> elements. It fails exactly
  when that count is negative. It accepts \<^verbatim>\<open>/usr/bin/dash\<close> and
  \<^verbatim>\<open>../conf.avail/file\<close> from a nested directory, and rejects
  \<^verbatim>\<open>../../../etc/passwd\<close> from a symlink at the root.
\<close>

theorem ValidateSymlink_depth_rule:
  "symlink_depth parts =
     int (length (filter (\<lambda>p. p \<noteq> [] \<and> p \<noteq> ''.'' \<and> p \<noteq> ''..'') parts))
       - int (length (filter (\<lambda>p. p = ''..'') parts))
   \<and> (ValidateSymlink symlinkPath targetPath \<noteq> None) =
       (\<not> IsAbs targetPath \<and>
        symlink_depth (Split (Clean (Join [Dir symlinkPath, targetPath]))) < 0)
   \<and> ValidateSymlink symlinkPath (Separator # rest) = None
   \<and> ValidateSymlink ''bin/sh'' ''/usr/bin/dash'' = None
   \<and> ValidateSymlink ''etc/fonts/conf.d/foo'' ''../conf.avail/file'' = None
   \<and> ValidateSymlink ''foo'' ''../../../etc/passwd'' =
       Some (SymlinkTraversalDetected ''foo'' ''../../../etc/passwd'' ''../../../etc/passwd'')"
proof -
  have d: "symlink_depth parts =
     int (length (filter (\<lambda>p. p \<noteq> [] \<and> p \<noteq> ''.'' \<and> p \<noteq> ''..'') parts))
       - int (length (filter (\<lambda>p. p = ''..'') parts))"
    by (simp add: symlink_depth_def foldl_depth_step)
  have iff: "(ValidateSymlink symlinkPath targetPath \<noteq> None) =
       (\<not> IsAbs targetPath \<and>
        symlink_depth (Split (Clean (Join [Dir symlinkPath, targetPath]))) < 0)"
    by (simp add: ValidateSymlink_def Let_def)
  have a: "ValidateSymlink symlinkPath (Separator # rest) = None"
    by (simp add: ValidateSymlink_def IsAbs_def HasPrefix_def)
  have e1: "ValidateSymlink ''bin/sh'' ''/usr/bin/dash'' = None" by code_simp
  have e2: "ValidateSymlink ''etc/fonts/conf.d/foo'' ''../conf.avail/file'' = None" by code_simp
  have e3: "ValidateSymlink ''foo'' ''../../../etc/passwd'' =
       Some (SymlinkTraversalDetected ''foo'' ''../../../etc/passwd'' ''../../../etc/passwd'')"
    by code_simp
  from d iff a e1 e2 e3 show ?thesis by blast
qed

text \<open>
  The two-level target of the original claim is not rejected: from a symlink at the root
  it resolves to \<^verbatim>\<open>../../etc/passwd\<close>, whose count is zero, and from one directory
  down to \<^verbatim>\<open>../etc/passwd\<close>, whose count is one.
\<close>

theorem ValidateSymlink_accepts_two_up_at_root:
  "ValidateSymlink ''foo'' ''../../etc/passwd'' = None
   \<and> ValidateSymlink ''a/foo'' ''../../etc/passwd'' = None
   \<and> Clean (Join [Dir ''foo'', ''../../etc/passwd'']) = ''../../etc/passwd''
   \<and> symlink_depth (Split ''../../etc/passwd'') = 0"
  by code_simp

section \<open>Properties of the extractor\<close>

lemma extract_loop_append:
  "extract_loop os d v (xs @ ys) =
     (case extract_loop os d v xs of
        (Some e, v', evs) \<Rightarrow> (Some e, v', evs)
      | (None, v', evs) \<Rightarrow>
          (case extract_loop os d v' ys of (r, v'', evs') \<Rightarrow> (r, v'', evs @ evs')))"
proof (induction xs arbitrary: v)
  case Nil
  then show ?case by (simp split: prod.splits)
next
  case (Cons x xs)
  show ?case
  proof (cases x)
    case ReadError
    then show ?thesis by simp
  next
    case (Entry h b)
    then show ?thesis
      using Cons.IH by (auto split: prod.splits option.splits)
  qed
qed

lemma extract_loop_bad_entry:
  assumes "ValidatePath (Name h) = Some e"
  shows "extract_loop os d v (Entry h body # post) = (Some (InvalidPathInTar e), v, [])"
  using assms by (simp add: extract_entry_def)

text \<open>
  C3, as amended. When an archive holds an entry whose cleaned name is absolute or begins
  with \<^verbatim>\<open>..\<close>, extraction fails, and the filesystem calls it has made are exactly
  those made for the entries before the offending one: nothing is written for that entry
  or for any later one. When the entries before it extract without error, the error is
  the path violation; when the offending entry is the first, no filesystem call is made
  at all. Entries before the offending one have been written by then.
\<close>

theorem ExtractTarball_path_violation:
  assumes bad: "IsAbs (Clean (Name h)) \<or> HasPrefix (Clean (Name h)) ''..''"
    and opened: "\<not> tarOpenFails tar"
    and items: "tarItems tar = pre @ Entry h body # post"
  shows "fst (ExtractTarball os tar destDir v) \<noteq> None
    \<and> snd (snd (ExtractTarball os tar destDir v)) = snd (snd (extract_loop os destDir (Reset v) pre))
    \<and> (fst (extract_loop os destDir (Reset v) pre) = None \<longrightarrow>
         (\<exists>e. ValidatePath (Name h) = Some e
            \<and> fst (ExtractTarball os tar destDir v) = Some (InvalidPathInTar e)))
    \<and> (pre = [] \<longrightarrow> snd (snd (ExtractTarball os tar destDir v)) = [])"
proof -
  from bad obtain e where e: "ValidatePath (Name h) = Some e"
    using ValidatePath_fails_iff [of "Name h"] by auto
  obtain r v' evs where pre: "extract_loop os destDir (Reset v) pre = (r, v', evs)"
    by (cases "extract_loop os destDir (Reset v) pre") auto
  have loop: "extract_loop os destDir (Reset v) (tarItems tar) =
      (case r of Some e' \<Rightarrow> (Some e', v', evs) | None \<Rightarrow> (Some (InvalidPathInTar e), v', evs))"
    using pre extract_loop_bad_entry [OF e]
    by (simp add: items extract_loop_append split: option.splits)
  show ?thesis
    using opened loop pre e
    by (auto simp: ExtractTarball_def Let_def split: option.splits)
qed

theorem ExtractTarball_path_violation_witness:
  "HasPrefix (Clean ''../evil'') ''..''
   \<and> fst (ExtractTarball os_ok (tar_of [Entry (hdr ''a'' TypeDir []) [], Entry (hdr ''../evil'' TypeReg []) [1, 2, 3]]) ''/dest'' validator_1k)
       = Some (InvalidPathInTar (PathTraversalDetected ''../evil''))
   \<and> snd (snd (ExtractTarball os_ok (tar_of [Entry (hdr ''a'' TypeDir []) [], Entry (hdr ''../evil'' TypeReg []) [1, 2, 3]]) ''/dest'' validator_1k))
       = [(MkdirAll ''/dest/a'', True)]"
proof -
  let ?h = "hdr ''../evil'' TypeReg []"
  let ?tar = "tar_of [Entry (hdr ''a'' TypeDir []) [], Entry ?h [1, 2, 3]]"
  have bad: "IsAbs (Clean (Name ?h)) \<or> HasPrefix (Clean (Name ?h)) ''..''" by code_simp
  have opened: "\<not> tarOpenFails ?tar" by (simp add: tar_of_def)
  have items: "tarItems ?tar = [Entry (hdr ''a'' TypeDir []) []] @ Entry ?h [1, 2, 3] # []"
    by (simp add: tar_of_def)
  have pre: "extract_loop os_ok ''/dest'' (Reset validator_1k) [Entry (hdr ''a'' TypeDir []) []]
      = (None, Reset validator_1k, [(MkdirAll ''/dest/a'', True)])"
    by (simp add: extract_entry_def hdr_def os_ok_def TypeDir_def)
       code_simp
  have v: "ValidatePath (Name ?h) = Some (PathTraversalDetected ''../evil'')" by code_simp
  have p: "HasPrefix (Clean ''../evil'') ''..''" by code_simp
  from ExtractTarball_path_violation [OF bad opened items, of os_ok "''/dest''" validator_1k] pre v p
  show ?thesis by simp
qed

text \<open>
  The original claim also asked that nothing be on disk for the entries before the
  offending one. A directory entry followed by \<^verbatim>\<open>../evil\<close>: the directory has
  been created when the path violation is returned.
\<close>

theorem ExtractTarball_writes_before_violation:
  "fst (ExtractTarball os_ok (tar_of [Entry (hdr ''a'' TypeDir []) [], Entry (hdr ''../evil'' TypeReg []) [1, 2, 3]]) ''/dest'' validator_1k)
       = Some (InvalidPathInTar (PathTraversalDetected ''../evil''))
   \<and> snd (snd (ExtractTarball os_ok (tar_of [Entry (hdr ''a'' TypeDir []) [], Entry (hdr ''../evil'' TypeReg []) [1, 2, 3]]) ''/dest'' validator_1k))
       = [(MkdirAll ''/dest/a'', True)]"
  by code_simp

text \<open>
  C5, as amended. When the extraction of a regular-file entry fails in the copy of its
  contents, the extractor closes the file and returns the write error at once. Its
  filesystem calls for the entry are: create the parent directory, open the file, the
  failed write, close. It issues no remove: the bytes written before the error stay in
  the file.
\<close>

theorem extract_write_failure_keeps_partial_file:
  assumes failed: "fst (extract_entry os destDir v h body) = Some FailedToWriteFile"
  shows "\<exists>k. copyFault os (Join [destDir, Name h]) = Some k
    \<and> Typeflag h = TypeReg
    \<and> extract_loop os destDir v (Entry h body # rest) = extract_entry os destDir v h body
    \<and> snd (snd (extract_entry os destDir v h body)) =
        [(MkdirAll (Dir (Join [destDir, Name h])), True),
         (OpenFile (Join [destDir, Name h]) (Mode h), True),
         (Write (Join [destDir, Name h]) (take k body), False),
         (Close (Join [destDir, Name h]), True)]
    \<and> files_after [] (snd (snd (extract_entry os destDir v h body))) =
        [(Join [destDir, Name h], take k body)]"
proof -
  have loop: "extract_loop os destDir v (Entry h body # rest) = extract_entry os destDir v h body"
    using failed by (auto split: prod.splits option.splits)
  from failed have reg: "Typeflag h = TypeReg" and valid: "ValidatePath (Name h) = None"
    by (auto simp: extract_entry_def extract_symlink_def Let_def
             split: option.splits if_splits symlink_outcome.splits)
  from failed reg valid
  have r: "fst (extract_reg os v h body (Join [destDir, Name h])) = Some FailedToWriteFile"
    by (simp add: extract_entry_def TypeReg_def TypeDir_def)
  then obtain k where k: "copyFault os (Join [destDir, Name h]) = Some k"
    and evs: "snd (snd (extract_reg os v h body (Join [destDir, Name h]))) =
        [(MkdirAll (Dir (Join [destDir, Name h])), True),
         (OpenFile (Join [destDir, Name h]) (Mode h), True),
         (Write (Join [destDir, Name h]) (take k body), False),
         (Close (Join [destDir, Name h]), True)]"
    by (auto simp: extract_reg_def split: option.splits prod.splits if_splits)
  from reg valid have e: "extract_entry os destDir v h body = extract_reg os v h body (Join [destDir, Name h])"
    by (simp add: extract_entry_def TypeReg_def TypeDir_def)
  from k reg loop evs e show ?thesis by simp
qed

theorem extract_write_failure_keeps_partial_file_witness:
  "fst (extract_entry os_disk_full ''/dest'' validator_1k (hdr ''a/b'' TypeReg []) [1, 2, 3])
      = Some FailedToWriteFile
   \<and> (\<exists>k. copyFault os_disk_full (Join [''/dest'', Name (hdr ''a/b'' TypeReg [])]) = Some k
        \<and> files_after []
             (snd (snd (extract_entry os_disk_full ''/dest'' validator_1k (hdr ''a/b'' TypeReg []) [1, 2, 3])))
           = [(Join [''/dest'', Name (hdr ''a/b'' TypeReg [])], take k [1, 2, 3])])"
proof -
  have failed:
    "fst (extract_entry os_disk_full ''/dest'' validator_1k (hdr ''a/b'' TypeReg []) [1, 2, 3])
      = Some FailedToWriteFile"
    by code_simp
  from extract_write_failure_keeps_partial_file [OF failed] failed show ?thesis by blast
qed

text \<open>
  The original claim has the partial file deleted. A three-byte file whose copy fails
  after two bytes: extraction returns the write error, no remove is among its calls, and
  the file is left in the destination with the two bytes.
\<close>

theorem ExtractTarball_leaves_partial_file:
  "fst (ExtractTarball os_disk_full (tar_of [Entry (hdr ''a/b'' TypeReg []) [1, 2, 3]]) ''/dest'' validator_1k)
      = Some FailedToWriteFile
   \<and> snd (snd (ExtractTarball os_disk_full (tar_of [Entry (hdr ''a/b'' TypeReg []) [1, 2, 3]]) ''/dest'' validator_1k))
      = [(MkdirAll ''/dest/a'', True), (OpenFile ''/dest/a/b'' 420, True),
         (Write ''/dest/a/b'' [1, 2], False), (Close ''/dest/a/b'', True)]
   \<and> files_after [] (snd (snd (ExtractTarball os_disk_full (tar_of [Entry (hdr ''a/b'' TypeReg []) [1, 2, 3]]) ''/dest'' validator_1k)))
      = [(''/dest/a/b'', [1, 2])]"
  by code_simp




section \<open>Properties of the registry\<close>

lemma sint_add_of_nat:
  fixes s :: "64 word"
  assumes "sint s + int i < 2 ^ 63"
  shows "sint (s + of_nat i) = sint s + int i"
proof -
  have "s + of_nat i = word_of_int (sint s + int i)" by simp
  then have "sint (s + of_nat i) = signed_take_bit 63 (sint s + int i)"
    by (simp only: sint_sbintrunc') simp
  moreover have "- (2 ^ 63) \<le> sint s + int i"
    using sint_ge [of s] by simp
  ultimately show ?thesis
    using assms by (simp add: signed_take_bit_int_eq_self)
qed

lemma AllocateNextDeviceID_cases:
  "(\<exists>e. AllocateNextDeviceID io r = (Inl e, r)) \<or>
   AllocateNextDeviceID io r = (Inr (nextDeviceId r), r\<lparr>nextDeviceId := nextDeviceId r + 1\<rparr>)"
  by (simp add: AllocateNextDeviceID_def Let_def)

lemma AllocateNextDeviceID_ok_iff:
  "(\<exists>v. fst (AllocateNextDeviceID io r) = Inr v) =
     (\<not> io BeginTx \<and> \<not> io SelectSequence \<and> \<not> io UpdateSequence \<and> \<not> io CommitTx)"
  by (simp add: AllocateNextDeviceID_def Let_def)

lemma map_upt_shift:
  "s # map (\<lambda>i. s + 1 + of_nat i) [0..<n] = map (\<lambda>i. (s::64 word) + of_nat i) [0..<Suc n]"
proof -
  have "map (\<lambda>i. s + of_nat i) [0..<Suc n] = (s + of_nat 0) # map (\<lambda>i. s + of_nat (Suc i)) [0..<n]"
    by (simp only: map_upt_Suc)
  then show ?thesis by (simp add: add.assoc)
qed

lemma allocate_calls_Cons:
  "allocate_calls (io # ios) r =
     (fst (AllocateNextDeviceID io r) # fst (allocate_calls ios (snd (AllocateNextDeviceID io r))),
      snd (allocate_calls ios (snd (AllocateNextDeviceID io r))))"
  by (simp split: prod.splits)

lemma allocate_calls_sequence:
  "allocated (fst (allocate_calls ios r)) =
     map (\<lambda>i. nextDeviceId r + of_nat i) [0..<length (allocated (fst (allocate_calls ios r)))]
   \<and> nextDeviceId (snd (allocate_calls ios r)) =
       nextDeviceId r + of_nat (length (allocated (fst (allocate_calls ios r))))
   \<and> images (snd (allocate_calls ios r)) = images r"
proof (induction ios arbitrary: r)
  case Nil
  then show ?case by simp
next
  case (Cons io ios)
  from AllocateNextDeviceID_cases [of io r] show ?case
  proof
    assume "\<exists>e. AllocateNextDeviceID io r = (Inl e, r)"
    then obtain e where "AllocateNextDeviceID io r = (Inl e, r)" by blast
    then show ?thesis using Cons.IH [of r] by (simp only: allocate_calls_Cons) simp
  next
    let ?r' = "r\<lparr>nextDeviceId := nextDeviceId r + 1\<rparr>"
    let ?n = "length (allocated (fst (allocate_calls ios ?r')))"
    assume ok: "AllocateNextDeviceID io r = (Inr (nextDeviceId r), ?r')"
    have step: "allocated (fst (allocate_calls (io # ios) r)) =
        nextDeviceId r # allocated (fst (allocate_calls ios ?r'))"
      and rest: "snd (allocate_calls (io # ios) r) = snd (allocate_calls ios ?r')"
      using ok by (simp_all only: allocate_calls_Cons) simp_all
    have ih: "allocated (fst (allocate_calls ios ?r')) =
        map (\<lambda>i. nextDeviceId r + 1 + of_nat i) [0..<?n]"
      and ih2: "nextDeviceId (snd (allocate_calls ios ?r')) = nextDeviceId r + 1 + of_nat ?n"
      and ih3: "images (snd (allocate_calls ios ?r')) = images r"
      using Cons.IH [of ?r'] by simp_all
    have len: "length (allocated (fst (allocate_calls (io # ios) r))) = Suc ?n"
      using step by simp
    have "allocated (fst (allocate_calls (io # ios) r)) =
        map (\<lambda>i. nextDeviceId r + of_nat i) [0..<Suc ?n]"
      using step ih map_upt_shift [of "nextDeviceId r" ?n] by simp
    then show ?thesis using len rest ih2 ih3 by (simp add: add.assoc)
  qed
qed

lemma map_sint_sequence:
  fixes s :: "64 word"
  assumes "sint s + int k \<le> 2 ^ 63"
  shows "map sint (map (\<lambda>i. s + of_nat i) [0..<k]) = map (\<lambda>i. sint s + int i) [0..<k]"
proof -
  have "\<And>i. i < k \<Longrightarrow> sint (s + of_nat i) = sint s + int i"
  proof -
    fix i assume "i < k"
    with assms have "sint s + int i < 2 ^ 63" by simp
    then show "sint (s + of_nat i) = sint s + int i" by (rule sint_add_of_nat)
  qed
  then show ?thesis by simp
qed

text \<open>
  C7. A successful call of \<open>AllocateNextDeviceID\<close> returns the stored value and
  leaves the stored value one higher, the rest of the database untouched; a call fails
  exactly when one of its four statements (begin, read, write-back, commit) fails, and a
  failed call leaves the database as it was. Hence, in any series of calls, the values
  returned by the successful ones are the stored value \<open>s\<close> at the start, then
  \<open>s + 1\<close>, and so on, one for each success, and the stored value ends at \<open>s\<close>
  plus their number. The arithmetic is that of the 64-bit integer; as long as it does not
  pass the largest signed value, the values read as integers are consecutive and no value
  is returned twice.
\<close>

theorem AllocateNextDeviceID_sequence:
  "(case AllocateNextDeviceID io r of
      (Inl e, r') \<Rightarrow> r' = r
    | (Inr v, r') \<Rightarrow> v = nextDeviceId r \<and> r' = r\<lparr>nextDeviceId := v + 1\<rparr>)
   \<and> (\<exists>v. fst (AllocateNextDeviceID io r) = Inr v) =
       (\<not> io BeginTx \<and> \<not> io SelectSequence \<and> \<not> io UpdateSequence \<and> \<not> io CommitTx)
   \<and> allocated (fst (allocate_calls ios r)) =
       map (\<lambda>i. nextDeviceId r + of_nat i) [0..<length (allocated (fst (allocate_calls ios r)))]
   \<and> nextDeviceId (snd (allocate_calls ios r)) =
       nextDeviceId r + of_nat (length (allocated (fst (allocate_calls ios r))))
   \<and> (sint (nextDeviceId r) + int (length (allocated (fst (allocate_calls ios r)))) \<le> 2 ^ 63 \<longrightarrow>
        map sint (allocated (fst (allocate_calls ios r))) =
          map (\<lambda>i. sint (nextDeviceId r) + int i)
            [0..<length (allocated (fst (allocate_calls ios r)))]
        \<and> distinct (allocated (fst (allocate_calls ios r))))"
proof -
  let ?vs = "allocated (fst (allocate_calls ios r))"
  have one: "(case AllocateNextDeviceID io r of
      (Inl e, r') \<Rightarrow> r' = r
    | (Inr v, r') \<Rightarrow> v = nextDeviceId r \<and> r' = r\<lparr>nextDeviceId := v + 1\<rparr>)"
    using AllocateNextDeviceID_cases [of io r] by auto
  have seq: "?vs = map (\<lambda>i. nextDeviceId r + of_nat i) [0..<length ?vs]"
    and nxt: "nextDeviceId (snd (allocate_calls ios r)) = nextDeviceId r + of_nat (length ?vs)"
    using allocate_calls_sequence [of ios r] by blast+
  have ints: "map sint ?vs = map (\<lambda>i. sint (nextDeviceId r) + int i) [0..<length ?vs]"
    if "sint (nextDeviceId r) + int (length ?vs) \<le> 2 ^ 63"
    using map_sint_sequence [OF that] seq by metis
  have dist: "distinct ?vs"
    if b: "sint (nextDeviceId r) + int (length ?vs) \<le> 2 ^ 63"
  proof -
    have "distinct (map (\<lambda>i. sint (nextDeviceId r) + int i) [0..<length ?vs])"
      by (simp add: distinct_map inj_on_def)
    with ints [OF b] have "distinct (map sint ?vs)" by simp
    then show ?thesis by (simp add: distinct_map)
  qed
  from one AllocateNextDeviceID_ok_iff [of io r] seq nxt ints dist show ?thesis by blast
qed

theorem AllocateNextDeviceID_sequence_witness:
  "sint (nextDeviceId NewRepository)
     + int (length (allocated (fst (allocate_calls [no_io, no_io(CommitTx := True), no_io] NewRepository))))
     \<le> 2 ^ 63
   \<and> map sint (allocated (fst (allocate_calls [no_io, no_io(CommitTx := True), no_io] NewRepository)))
       = [1, 2]
   \<and> distinct (allocated (fst (allocate_calls [no_io, no_io(CommitTx := True), no_io] NewRepository)))"
proof -
  let ?ios = "[no_io, no_io(CommitTx := True), no_io]"
  let ?vs = "allocated (fst (allocate_calls ?ios NewRepository))"
  have vs: "?vs = [1, 2]" by code_simp
  have s: "nextDeviceId NewRepository = 1" by (simp add: NewRepository_def)
  have hyp: "sint (nextDeviceId NewRepository) + int (length ?vs) \<le> 2 ^ 63"
    using vs s by simp
  with AllocateNextDeviceID_sequence [where r = NewRepository and ios = ?ios]
  have "distinct ?vs" by blast
  with vs hyp show ?thesis by simp
qed

section \<open>Properties of the pipeline\<close>

text \<open>
  C10. With the stub manager, when the handler \<open>create_device\<close> has retries left and
  its allocation commits, it has taken the stored id from the device sequence before the
  stub's \<open>CreateDevice\<close> answers that the platform is not supported; it then returns
  success with a warning in the response. The sequence is one higher and the rows of the
  registry, so their device path, base device id and snapshot id, are what they were.
\<close>

theorem handleCreateDevice_stub_consumes_id:
  assumes stub: "dmManager m = Some (Stub goos)"
    and budget: "\<not> retries_exhausted m env"
    and alloc: "fst (AllocateNextDeviceID (dbIO env) (repo w)) = Inr n"
  shows "n = nextDeviceId (repo w)
    \<and> CreateDevice (kernel env) (Stub goos) (Itoa n) = Inl (not_supported goos)
    \<and> handleCreateDevice m env w req (Some resp) =
        (Next (resp\<lparr>RespErrorMessage :=
                 Sprintf ''devicemapper warning: '' (DmError (not_supported goos))\<rparr>),
         w\<lparr>repo := (repo w)\<lparr>nextDeviceId := nextDeviceId (repo w) + 1\<rparr>\<rparr>)
    \<and> images (repo (snd (handleCreateDevice m env w req (Some resp)))) = images (repo w)
    \<and> nextDeviceId (repo (snd (handleCreateDevice m env w req (Some resp)))) =
        nextDeviceId (repo w) + 1"
proof -
  from alloc AllocateNextDeviceID_cases [of "dbIO env" "repo w"]
  have a: "AllocateNextDeviceID (dbIO env) (repo w) =
      (Inr (nextDeviceId (repo w)), (repo w)\<lparr>nextDeviceId := nextDeviceId (repo w) + 1\<rparr>)"
    and n: "n = nextDeviceId (repo w)"
    by auto
  have c: "CreateDevice (kernel env) (Stub goos) (Itoa n) = Inl (not_supported goos)"
    by (simp add: CreateDevice_def)
  have h: "handleCreateDevice m env w req (Some resp) =
        (Next (resp\<lparr>RespErrorMessage :=
                 Sprintf ''devicemapper warning: '' (DmError (not_supported goos))\<rparr>),
         w\<lparr>repo := (repo w)\<lparr>nextDeviceId := nextDeviceId (repo w) + 1\<rparr>\<rparr>)"
    using stub budget a by (simp add: handleCreateDevice_def CreateDevice_def)
  from n c h show ?thesis by simp
qed

text \<open>
  On a new registry with the stub for \<^verbatim>\<open>darwin\<close>: the handler takes id 1 and leaves
  the sequence at 2, and a whole pass of the chain ends with the sequence at 2 and a ready
  row without device.
\<close>

theorem handleCreateDevice_stub_consumes_id_witness:
  "dmManager stub_machine = Some (Stub ''darwin'')
   \<and> \<not> retries_exhausted stub_machine (env_of kernel_ok)
   \<and> fst (AllocateNextDeviceID (dbIO (env_of kernel_ok)) (repo new_world)) = Inr 1
   \<and> nextDeviceId (repo (snd (handleCreateDevice stub_machine (env_of kernel_ok) new_world
        golang_request (Some empty_response)))) = 2
   \<and> nextDeviceId (repo (snd (run_chain stub_machine (env_of kernel_ok) new_world
        golang_request))) = 2
   \<and> device_columns (snd (run_chain stub_machine (env_of kernel_ok) new_world golang_request))
       = [(''ready'', [], 0, 0)]"
proof -
  have stub: "dmManager stub_machine = Some (Stub ''darwin'')" by code_simp
  have budget: "\<not> retries_exhausted stub_machine (env_of kernel_ok)" by code_simp
  have alloc: "fst (AllocateNextDeviceID (dbIO (env_of kernel_ok)) (repo new_world)) = Inr 1"
    by code_simp
  have start: "nextDeviceId (repo new_world) = 1" by code_simp
  have run: "nextDeviceId (repo (snd (run_chain stub_machine (env_of kernel_ok) new_world
        golang_request))) = 2" by code_simp
  have cols: "device_columns (snd (run_chain stub_machine (env_of kernel_ok) new_world
        golang_request)) = [(''ready'', [], 0, 0)]" by code_simp
  from handleCreateDevice_stub_consumes_id [OF stub budget alloc,
      of golang_request empty_response] start
  have "nextDeviceId (repo (snd (handleCreateDevice stub_machine (env_of kernel_ok) new_world
        golang_request (Some empty_response)))) = 2"
    by simp
  with stub budget alloc run cols show ?thesis by blast
qed

text \<open>
  C1 fails on the code. On Linux, with a kernel in which creating the thin device fails
  (an error whose text does not hold \<^verbatim>\<open>not supported\<close>), \<open>create_device\<close> returns
  success all the same, \<open>complete\<close> finds no device path and skips the snapshot, and the
  row ends ready with an empty device path and zero for both ids.
\<close>

theorem create_device_error_still_ready:
  "CreateDevice kernel_no_thin (Linux ''pool'') ''1''
      = Inl ''failed to create thin device metadata: exit status 1''
   \<and> \<not> Contains ''failed to create thin device metadata: exit status 1'' ''not supported''
   \<and> device_columns (snd (run_chain linux_machine (env_of kernel_no_thin) new_world
        golang_request)) = [(''ready'', [], 0, 0)]"
  by code_simp

text \<open>
  C2 fails on the code. After a first activation the row is ready with device 1 and
  snapshot 2, and one fetch has been made. On the ready row \<open>download\<close> does not
  return early: it fetches again and sets the status to downloading. A second pass of the
  chain with the same key ends with the row on a new base device, id 3, and two fetches
  in all.
\<close>

theorem second_run_repeats_pipeline:
  "device_columns activated_world = [(''ready'', ''/dev/mapper/flyio-1'', 1, 2)]
   \<and> fetches activated_world = [''images/golang/2.tar'']
   \<and> fetches (snd (handleDownload linux_machine (env_of kernel_ok) activated_world
        golang_request (checked_response activated_world)))
       = [''images/golang/2.tar'', ''images/golang/2.tar'']
   \<and> device_columns (snd (handleDownload linux_machine (env_of kernel_ok) activated_world
        golang_request (checked_response activated_world)))
       = [(''downloading'', ''/dev/mapper/flyio-1'', 1, 2)]
   \<and> device_columns (snd (run_chain linux_machine (env_of kernel_ok) activated_world
        golang_request)) = [(''ready'', ''/dev/mapper/flyio-3'', 3, 2)]
   \<and> fetches (snd (run_chain linux_machine (env_of kernel_ok) activated_world golang_request))
       = [''images/golang/2.tar'', ''images/golang/2.tar'']"
  by code_simp

section \<open>Properties of the cleanup command\<close>

lemma update_row_other:
  "\<not> list_ex (has_id (ID img)) rows \<Longrightarrow> map (update_row img) rows = rows"
  by (induction rows) (auto simp: update_row_def has_id_def)

lemma status_check_cleaned: "\<not> status_check ''cleaned''"
  by (simp add: status_check_def)

lemma Update_cleaned:
  "Status i = ''cleaned'' \<Longrightarrow>
   Update io r i =
     (Some (if io UpdateImage then Wrap (DbError DbIO) ''failed to update image''
            else if list_ex (has_id (ID i)) (images r)
            then Wrap (DbError CheckConstraintFailed) ''failed to update image''
            else if io RowsAffected then Wrap (DbError DbIO) ''failed to get rows affected''
            else DbError (ImageNotFound (ID i))), r)"
  by (simp add: Update_def Let_def status_check_cleaned update_row_other)

lemma cleanupImageResources_fails:
  "fst (cleanupImageResources env r dm wd img) \<noteq> None
   \<and> fst (snd (cleanupImageResources env r dm wd img)) = r"
  by (simp add: cleanupImageResources_def Let_def Update_cleaned)

text \<open>
  C6 fails on the code. The only write of the cleanup is the update that sets the status
  to \<^verbatim>\<open>cleaned\<close>, a value the \<^verbatim>\<open>CHECK\<close> constraint of the column refuses. So
  the cleanup of an image always returns an error and leaves the database as it was, and
  so does the cleanup of a key. After an activation, the cleanup of the key leaves the
  row ready.
\<close>

theorem cleanup_never_changes_registry:
  "fst (cleanupImageResources env r dm wd img) \<noteq> None
   \<and> fst (snd (cleanupImageResources env r dm wd img)) = r
   \<and> fst (cleanupSpecificImage env r dm wd key) \<noteq> None
   \<and> snd (cleanupSpecificImage env r dm wd key) = r
   \<and> map Status (images (snd (cleanupSpecificImage cleanup_env_ok (repo activated_world)
        (Some (Linux ''pool'')) ''/work'' ''images/golang/2.tar''))) = [''ready'']
   \<and> fst (cleanupSpecificImage cleanup_env_ok (repo activated_world)
        (Some (Linux ''pool'')) ''/work'' ''images/golang/2.tar'')
       = Some (Wrap (Wrap (Wrap (DbError CheckConstraintFailed) ''failed to update image'')
                 ''failed to update database'') ''cleanup failed'')"
proof -
  have b: "fst (cleanupSpecificImage env r dm wd key) \<noteq> None
      \<and> snd (cleanupSpecificImage env r dm wd key) = r"
  proof (cases "GetByS3Key (cleanupIO env) r key")
    case (Inl e)
    then show ?thesis by (simp add: cleanupSpecificImage_def)
  next
    case (Inr found)
    show ?thesis
    proof (cases found)
      case None
      with Inr show ?thesis by (simp add: cleanupSpecificImage_def)
    next
      case (Some i)
      with Inr cleanupImageResources_fails [of env r dm wd i] show ?thesis
        by (auto simp: cleanupSpecificImage_def split: prod.splits option.splits)
    qed
  qed
  have c: "map Status (images (snd (cleanupSpecificImage cleanup_env_ok (repo activated_world)
        (Some (Linux ''pool'')) ''/work'' ''images/golang/2.tar''))) = [''ready'']"
    by code_simp
  have d: "fst (cleanupSpecificImage cleanup_env_ok (repo activated_world)
        (Some (Linux ''pool'')) ''/work'' ''images/golang/2.tar'')
       = Some (Wrap (Wrap (Wrap (DbError CheckConstraintFailed) ''failed to update image'')
                 ''failed to update database'') ''cleanup failed'')"
    by code_simp
  from cleanupImageResources_fails [of env r dm wd img] b c d show ?thesis by blast
qed

end
